theory Spec2Isabelle
  imports Complex_Main
begin

section \<open>JavaScript numbers and values\<close>

text \<open>
  A JavaScript number is an IEEE double: NaN, one of the two infinities, or a finite
  value. Finite values are embedded as reals and arithmetic on two finite values is taken
  exact (no rounding, no overflow to an infinity, no signed zero); the special values
  follow IEEE 754: NaN is contagious, every comparison with NaN is false,
  \<open>Infinity - Infinity\<close> and \<open>0 * Infinity\<close> are NaN.
\<close>

datatype jsnum = NaN | NInf | Fin real | PInf

fun js_neg :: "jsnum \<Rightarrow> jsnum" where
  "js_neg NaN = NaN"
| "js_neg NInf = PInf"
| "js_neg (Fin a) = Fin (- a)"
| "js_neg PInf = NInf"

fun js_add :: "jsnum \<Rightarrow> jsnum \<Rightarrow> jsnum" where
  "js_add (Fin a) (Fin b) = Fin (a + b)"
| "js_add NaN y = NaN"
| "js_add x NaN = NaN"
| "js_add PInf NInf = NaN"
| "js_add NInf PInf = NaN"
| "js_add PInf y = PInf"
| "js_add x PInf = PInf"
| "js_add NInf y = NInf"
| "js_add x NInf = NInf"

definition js_sub :: "jsnum \<Rightarrow> jsnum \<Rightarrow> jsnum" where
  "js_sub x y = js_add x (js_neg y)"

text \<open>The product of a finite factor with \<open>+Infinity\<close>.\<close>

definition inf_times :: "real \<Rightarrow> jsnum" where
  "inf_times a = (if a = 0 then NaN else if 0 < a then PInf else NInf)"

fun js_mul :: "jsnum \<Rightarrow> jsnum \<Rightarrow> jsnum" where
  "js_mul (Fin a) (Fin b) = Fin (a * b)"
| "js_mul NaN y = NaN"
| "js_mul x NaN = NaN"
| "js_mul PInf (Fin b) = inf_times b"
| "js_mul (Fin a) PInf = inf_times a"
| "js_mul NInf (Fin b) = inf_times (- b)"
| "js_mul (Fin a) NInf = inf_times (- a)"
| "js_mul PInf PInf = PInf"
| "js_mul NInf NInf = PInf"
| "js_mul PInf NInf = NInf"
| "js_mul NInf PInf = NInf"

fun js_div :: "jsnum \<Rightarrow> jsnum \<Rightarrow> jsnum" where
  "js_div (Fin a) (Fin b) = (if b = 0 then inf_times a else Fin (a / b))"
| "js_div NaN y = NaN"
| "js_div x NaN = NaN"
| "js_div (Fin a) PInf = Fin 0"
| "js_div (Fin a) NInf = Fin 0"
| "js_div PInf (Fin b) = (if 0 \<le> b then PInf else NInf)"
| "js_div NInf (Fin b) = (if 0 \<le> b then NInf else PInf)"
| "js_div x y = NaN"

fun js_lt :: "jsnum \<Rightarrow> jsnum \<Rightarrow> bool" where
  "js_lt (Fin a) (Fin b) = (a < b)"
| "js_lt NaN y = False"
| "js_lt x NaN = False"
| "js_lt x NInf = False"
| "js_lt NInf y = True"
| "js_lt PInf y = False"
| "js_lt x PInf = True"

fun js_le :: "jsnum \<Rightarrow> jsnum \<Rightarrow> bool" where
  "js_le (Fin a) (Fin b) = (a \<le> b)"
| "js_le NaN y = False"
| "js_le x NaN = False"
| "js_le NInf y = True"
| "js_le x PInf = True"
| "js_le x NInf = False"
| "js_le PInf y = False"

definition js_gt :: "jsnum \<Rightarrow> jsnum \<Rightarrow> bool" where
  "js_gt x y = js_lt y x"

definition js_ge :: "jsnum \<Rightarrow> jsnum \<Rightarrow> bool" where
  "js_ge x y = js_le y x"

text \<open>Strict equality \<open>===\<close> on numbers: NaN is not equal to itself.\<close>

definition js_eq :: "jsnum \<Rightarrow> jsnum \<Rightarrow> bool" where
  "js_eq x y = (if x = NaN then False else x = y)"

text \<open>\<open>Math.abs\<close> and \<open>Math.min\<close> (the source's \<open>fabs\<close> and \<open>fmin2\<close>).\<close>

fun fabs :: "jsnum \<Rightarrow> jsnum" where
  "fabs NaN = NaN"
| "fabs NInf = PInf"
| "fabs (Fin a) = Fin \<bar>a\<bar>"
| "fabs PInf = PInf"

definition fmin2 :: "jsnum \<Rightarrow> jsnum \<Rightarrow> jsnum" where
  "fmin2 x y = (if x = NaN then NaN else if y = NaN then NaN else if js_lt y x then y else x)"

text \<open>
  A value read from the table is a number or \<open>undefined\<close>; an arithmetic operator
  converts its operand with ToNumber, which maps \<open>undefined\<close> to NaN.
\<close>

datatype jsval = Undefined | Number jsnum

fun ToNumber :: "jsval \<Rightarrow> jsnum" where
  "ToNumber Undefined = NaN"
| "ToNumber (Number x) = x"

fun strict_eq :: "jsval \<Rightarrow> jsnum \<Rightarrow> bool" where
  "strict_eq Undefined y = False"
| "strict_eq (Number x) y = js_eq x y"

datatype error = RangeError | TypeError

section \<open>JavaScript arrays\<close>

text \<open>
  An array has indexed elements, where a slot never written is a hole that reads as
  \<open>undefined\<close>, and named properties: a key that is not a non-negative integer below
  \<open>2^32 - 1\<close> (a fraction, NaN, a negative number) names a property, not an element.
  Reading past the end gives \<open>undefined\<close>; writing past the end extends the array with
  holes.
\<close>

record jsarray =
  elems :: "jsnum option list"
  props :: "(jsnum \<times> jsnum) list"

definition array_index :: "jsnum \<Rightarrow> nat option" where
  "array_index k =
     (case k of
        Fin r \<Rightarrow> (if 0 \<le> r \<and> r = of_int \<lfloor>r\<rfloor> \<and> r < 2 ^ 32 - 1 then Some (nat \<lfloor>r\<rfloor>) else None)
      | _ \<Rightarrow> None)"

definition arr_get :: "jsarray \<Rightarrow> jsnum \<Rightarrow> jsval" where
  "arr_get a k =
     (case array_index k of
        Some i \<Rightarrow>
          (if i < length (elems a)
           then (case elems a ! i of None \<Rightarrow> Undefined | Some v \<Rightarrow> Number v)
           else Undefined)
      | None \<Rightarrow> (case map_of (props a) k of None \<Rightarrow> Undefined | Some v \<Rightarrow> Number v))"

definition arr_set :: "jsarray \<Rightarrow> jsnum \<Rightarrow> jsnum \<Rightarrow> jsarray" where
  "arr_set a k v =
     (case array_index k of
        Some i \<Rightarrow>
          (if i < length (elems a)
           then a\<lparr>elems := (elems a)[i := Some v]\<rparr>
           else a\<lparr>elems := elems a @ replicate (i - length (elems a)) None @ [Some v]\<rparr>)
      | None \<Rightarrow> a\<lparr>props := (k, v) # props a\<rparr>)"

text \<open>
  \<open>new Array(len)\<close> with a numeric argument: a RangeError unless \<open>len\<close> is an
  integer in \<open>0 .. 2^32 - 1\<close>; otherwise an array of \<open>len\<close> holes.
\<close>

definition new_Array :: "jsnum \<Rightarrow> error + jsarray" where
  "new_Array len =
     (case len of
        Fin r \<Rightarrow>
          (if 0 \<le> r \<and> r = of_int \<lfloor>r\<rfloor> \<and> r < 2 ^ 32
           then Inr \<lparr>elems = replicate (nat \<lfloor>r\<rfloor>) None, props = []\<rparr>
           else Inl RangeError)
      | _ \<Rightarrow> Inl RangeError)"

section \<open>Diagnostics and the module state\<close>

text \<open>
  Diagnostics that the library reports on its side channel: a debug line of a printer,
  a warning, or an error of the \<open>ME\<close> enumeration.
\<close>

datatype ME = ME_DOMAIN | ME_RANGE | ME_NOCONV | ME_PRECISION | ME_UNDERFLOW

datatype diag = Debug string | Warning string | MLError ME

text \<open>
  The module state: \<open>let w: number[]\<close> and \<open>let allocated_n: number\<close>, both
  \<open>undefined\<close> until the first call of \<open>w_init_maybe\<close>, and the diagnostics
  reported so far.
\<close>

record signrank_state =
  w :: "jsarray option"
  allocated_n :: "jsnum option"
  reported :: "diag list"

section \<open>Helpers of \<open>_general\<close> and collaborators\<close>

text \<open>
  Modelled from the spec: the numeric utility layer (\<open>_general\<close>, \<open>log1p\<close>,
  \<open>expm1\<close>, \<open>~common\<close>) is imported by the sources and not part of them. The spec
  describes it as NaN and infinity tests, rounding to an integer, and boundary-value
  helpers that, given the tail and log flags, return the transformed representation of an
  exact 0, an exact 1 or a computed probability; the definitions follow Mathlib's macros
  of the same names. \<open>R_forceint\<close> rounds to the nearest integer (ties are not used
  below).
\<close>

definition ISNAN :: "jsnum \<Rightarrow> bool" where
  "ISNAN x = (x = NaN)"

fun R_FINITE :: "jsnum \<Rightarrow> bool" where
  "R_FINITE (Fin a) = True"
| "R_FINITE x = False"

fun R_forceint :: "jsnum \<Rightarrow> jsnum" where
  "R_forceint (Fin a) = Fin (of_int (round a))"
| "R_forceint x = x"

fun trunc :: "jsnum \<Rightarrow> jsnum" where
  "trunc (Fin a) = Fin (of_int (if 0 \<le> a then \<lfloor>a\<rfloor> else \<lceil>a\<rceil>))"
| "trunc x = x"

fun js_floor :: "jsnum \<Rightarrow> jsnum" where
  "js_floor (Fin a) = Fin (of_int \<lfloor>a\<rfloor>)"
| "js_floor x = x"

definition M_LN2 :: jsnum where
  "M_LN2 = Fin 0.693147180559945309417"

definition DBL_EPSILON :: jsnum where
  "DBL_EPSILON = Fin (1 / 2 ^ 52)"

text \<open>
  The mathematical library and the collaborating distribution functions are parameters:
  \<open>Math.exp\<close>, \<open>Math.log\<close>, \<open>Math.log1p\<close>, \<open>Math.expm1\<close>, \<open>Math.pow\<close>,
  \<open>Math.sqrt\<close>, and \<open>pbeta\<close>, \<open>lgammafn\<close>, \<open>pnorm\<close>, \<open>pt\<close>.
\<close>

record libm =
  m_exp :: "jsnum \<Rightarrow> jsnum"
  m_log :: "jsnum \<Rightarrow> jsnum"
  m_log1p :: "jsnum \<Rightarrow> jsnum"
  m_expm1 :: "jsnum \<Rightarrow> jsnum"
  m_pow :: "jsnum \<Rightarrow> jsnum \<Rightarrow> jsnum"
  m_sqrt :: "jsnum \<Rightarrow> jsnum"
  pbeta :: "jsnum \<Rightarrow> jsnum \<Rightarrow> jsnum \<Rightarrow> bool \<Rightarrow> bool \<Rightarrow> jsnum"
  lgammafn :: "jsnum \<Rightarrow> jsnum"
  pnorm :: "jsnum \<Rightarrow> jsnum \<Rightarrow> jsnum \<Rightarrow> bool \<Rightarrow> bool \<Rightarrow> jsnum"
  pt :: "jsnum \<Rightarrow> jsnum \<Rightarrow> bool \<Rightarrow> bool \<Rightarrow> jsnum"

definition R_D__0 :: "bool \<Rightarrow> jsnum" where
  "R_D__0 log_p = (if log_p then NInf else Fin 0)"

definition R_D__1 :: "bool \<Rightarrow> jsnum" where
  "R_D__1 log_p = (if log_p then Fin 0 else Fin 1)"

definition R_DT_0 :: "bool \<Rightarrow> bool \<Rightarrow> jsnum" where
  "R_DT_0 lower_tail log_p = (if lower_tail then R_D__0 log_p else R_D__1 log_p)"

definition R_DT_1 :: "bool \<Rightarrow> bool \<Rightarrow> jsnum" where
  "R_DT_1 lower_tail log_p = (if lower_tail then R_D__1 log_p else R_D__0 log_p)"

definition R_D_val :: "libm \<Rightarrow> bool \<Rightarrow> jsnum \<Rightarrow> jsnum" where
  "R_D_val L log_p x = (if log_p then m_log L x else x)"

definition R_D_Clog :: "libm \<Rightarrow> bool \<Rightarrow> jsnum \<Rightarrow> jsnum" where
  "R_D_Clog L log_p p =
     (if log_p then m_log1p L (js_neg p) else js_add (js_sub (Fin 0.5) p) (Fin 0.5))"

definition R_DT_val :: "libm \<Rightarrow> bool \<Rightarrow> bool \<Rightarrow> jsnum \<Rightarrow> jsnum" where
  "R_DT_val L lower_tail log_p x = (if lower_tail then R_D_val L log_p x else R_D_Clog L log_p x)"

definition R_D_exp :: "libm \<Rightarrow> bool \<Rightarrow> jsnum \<Rightarrow> jsnum" where
  "R_D_exp L log_p x = (if log_p then x else m_exp L x)"

definition R_DT_qIv :: "libm \<Rightarrow> bool \<Rightarrow> bool \<Rightarrow> jsnum \<Rightarrow> jsnum" where
  "R_DT_qIv L lower_tail log_p p =
     (if log_p then (if lower_tail then m_exp L p else js_neg (m_expm1 L p))
      else (if lower_tail then p else js_add (js_sub (Fin 0.5) p) (Fin 0.5)))"

text \<open>
  \<open>R_Q_P01_check\<close> gives NaN (a domain error) for an illegal probability and
  \<open>undefined\<close>, here \<open>None\<close>, for a legal one.
\<close>

definition R_Q_P01_check :: "bool \<Rightarrow> jsnum \<Rightarrow> jsnum option" where
  "R_Q_P01_check log_p p =
     (if (log_p \<and> js_gt p (Fin 0)) \<or> (\<not> log_p \<and> (js_lt p (Fin 0) \<or> js_gt p (Fin 1)))
      then Some NaN else None)"

definition R_nonint :: "jsnum \<Rightarrow> bool" where
  "R_nonint x = js_gt (fabs (js_sub x (R_forceint x))) (Fin (1 / 10 ^ 7))"

text \<open>\<open>ML_ERR_return_NAN()\<close>, when it is called, reports a domain error; its value is NaN.\<close>

definition report :: "diag \<Rightarrow> signrank_state \<Rightarrow> signrank_state" where
  "report d s = s\<lparr>reported := reported s @ [d]\<rparr>"

section \<open>The signed-rank engine (signrank.ts)\<close>

text \<open>
  \<open>w_init_maybe\<close>, lines 72-84. The test \<open>if (!w)\<close> is never true of an array
  object, so \<open>MATHLIB_ERROR\<close> is not reached; what can fail is \<open>new Array\<close>.
\<close>

definition w_init_maybe :: "jsnum \<Rightarrow> signrank_state \<Rightarrow> error + signrank_state" where
  "w_init_maybe n s =
     (let u = js_div (js_mul n (js_add n (Fin 1))) (Fin 2);
          c = js_div u (Fin 2)
      in case new_Array (js_add c (Fin 1)) of
           Inl e \<Rightarrow> Inl e
         | Inr a \<Rightarrow> Inr (s\<lparr>w := Some a, allocated_n := Some n\<rparr>))"

text \<open>
  Modelled from the spec: \<open>imin2\<close> of \<open>_general\<close> (not in the sources), the minimum
  of two integers, \<open>min(j(j+1)/2, c)\<close> in the spec's words; as in Mathlib,
  \<open>(x < y) ? x : y\<close>.
\<close>

definition imin2 :: "jsnum \<Rightarrow> jsnum \<Rightarrow> jsnum" where
  "imin2 x y = (if js_lt x y then x else y)"

text \<open>
  \<open>csignrank\<close>, lines 86-117. The inner loop is
  \<open>for (i = end; i >= j; --i) w[i] += w[i - j]\<close>, the outer one
  \<open>for (j = 2; j < n + 1; ++j)\<close>. A loop that does not end (an infinite \<open>n\<close>) is the
  value \<open>None\<close>.
\<close>

partial_function (option) csignrank_inner :: "jsnum \<Rightarrow> jsnum \<Rightarrow> jsarray \<Rightarrow> jsarray option" where
  "csignrank_inner i j a =
     (if js_ge i j
      then csignrank_inner (js_sub i (Fin 1)) j
             (arr_set a i (js_add (ToNumber (arr_get a i)) (ToNumber (arr_get a (js_sub i j)))))
      else Some a)"

declare csignrank_inner.simps [code]

partial_function (option) csignrank_outer :: "jsnum \<Rightarrow> jsnum \<Rightarrow> jsnum \<Rightarrow> jsarray \<Rightarrow> jsarray option" where
  "csignrank_outer j n c a =
     (if js_lt j (js_add n (Fin 1))
      then Option.bind
             (csignrank_inner (imin2 (js_div (js_mul j (js_add j (Fin 1))) (Fin 2)) c) j a)
             (\<lambda>a'. csignrank_outer (js_add j (Fin 1)) n c a')
      else Some a)"

declare csignrank_outer.simps [code]

text \<open>
  The result is \<open>None\<close> when the build does not end, \<open>Inl TypeError\<close> when \<open>w\<close> is
  still \<open>undefined\<close> at \<open>w[0]\<close>, and otherwise the value returned (a number, or
  \<open>undefined\<close> when the slot read was never written) with the state after the call.
\<close>

definition csignrank :: "jsnum \<Rightarrow> jsnum \<Rightarrow> signrank_state \<Rightarrow> (error + jsval \<times> signrank_state) option" where
  "csignrank k n s =
     (let u = js_div (js_mul n (js_add n (Fin 1))) (Fin 2);
          c = js_div u (Fin 2)
      in if js_lt k (Fin 0) \<or> js_gt k u then Some (Inr (Number (Fin 0), s))
         else let k = (if js_gt k c then js_sub u k else k)
              in if js_eq n (Fin 1) then Some (Inr (Number (Fin 1), s))
                 else (case w s of
                         None \<Rightarrow> Some (Inl TypeError)
                       | Some a \<Rightarrow>
                           if strict_eq (arr_get a (Fin 0)) (Fin 1) then Some (Inr (arr_get a k, s))
                           else (case csignrank_outer (Fin 2) n c
                                        (arr_set (arr_set a (Fin 1) (Fin 1)) (Fin 0) (Fin 1)) of
                                   None \<Rightarrow> None
                                 | Some a' \<Rightarrow> Some (Inr (arr_get a' k, s\<lparr>w := Some a'\<rparr>)))))"

text \<open>
  \<open>dsignrank\<close>, lines 119-143. Here the domain error is returned:
  \<open>return ML_ERR_return_NAN()\<close>.
\<close>

definition dsignrank :: "libm \<Rightarrow> jsnum \<Rightarrow> jsnum \<Rightarrow> bool \<Rightarrow> signrank_state \<Rightarrow> (error + jsnum \<times> signrank_state) option" where
  "dsignrank L x n give_log s =
     (if ISNAN x \<or> ISNAN n then Some (Inr (js_add x n, s))
      else let n = R_forceint n
           in if js_le n (Fin 0) then Some (Inr (NaN, report (MLError ME_DOMAIN) s))
              else if js_gt (fabs (js_sub x (R_forceint x))) (Fin (1 / 10 ^ 7))
                   then Some (Inr (R_D__0 give_log, s))
              else let x = R_forceint x
                   in if js_lt x (Fin 0) \<or> js_gt x (js_div (js_mul n (js_add n (Fin 1))) (Fin 2))
                      then Some (Inr (R_D__0 give_log, s))
                      else let nn = trunc n
                           in (case w_init_maybe nn s of
                                 Inl e \<Rightarrow> Some (Inl e)
                               | Inr s1 \<Rightarrow>
                                   (case csignrank (trunc x) nn s1 of
                                      None \<Rightarrow> None
                                    | Some (Inl e) \<Rightarrow> Some (Inl e)
                                    | Some (Inr (v, s2)) \<Rightarrow>
                                        Some (Inr (R_D_exp L give_log
                                                     (js_sub (m_log L (ToNumber v)) (js_mul n M_LN2)),
                                                   s2)))))"

text \<open>
  The two summation loops of \<open>psignrank\<close>,
  \<open>for (i = 0; i <= x; i++) p += csignrank(i, nn) * f\<close> and the same with \<open>i < x\<close>:
  \<open>cmp\<close> is the loop test.
\<close>

partial_function (option) psignrank_loop ::
  "(jsnum \<Rightarrow> jsnum \<Rightarrow> bool) \<Rightarrow> jsnum \<Rightarrow> jsnum \<Rightarrow> jsnum \<Rightarrow> jsnum \<Rightarrow> jsnum \<Rightarrow> signrank_state
     \<Rightarrow> (error + jsnum \<times> signrank_state) option" where
  "psignrank_loop cmp i x nn f p s =
     (if cmp i x
      then (case csignrank i nn s of
              None \<Rightarrow> None
            | Some (Inl e) \<Rightarrow> Some (Inl e)
            | Some (Inr (v, s')) \<Rightarrow>
                psignrank_loop cmp (js_add i (Fin 1)) x nn f (js_add p (js_mul (ToNumber v) f)) s')
      else Some (Inr (p, s)))"

declare psignrank_loop.simps [code]

text \<open>
  \<open>psignrank\<close>, lines 145-180. Lines 154 and 156,
  \<open>if (!R_FINITE(n)) ML_ERR_return_NAN;\<close> and \<open>if (n <= 0) ML_ERR_return_NAN;\<close>, are
  expression statements that name the function without calling it and without
  \<open>return\<close>: they have no effect, and the model has no branch for them.
\<close>

definition psignrank :: "libm \<Rightarrow> jsnum \<Rightarrow> jsnum \<Rightarrow> bool \<Rightarrow> bool \<Rightarrow> signrank_state \<Rightarrow> (error + jsnum \<times> signrank_state) option" where
  "psignrank L x n lower_tail log_p s =
     (if ISNAN x \<or> ISNAN n then Some (Inr (js_add x n, s))
      else let n = R_forceint n;
               x = R_forceint (js_add x (Fin (1 / 10 ^ 7)))
           in if js_lt x (Fin 0) then Some (Inr (R_DT_0 lower_tail log_p, s))
              else if js_ge x (js_div (js_mul n (js_add n (Fin 1))) (Fin 2))
                   then Some (Inr (R_DT_1 lower_tail log_p, s))
              else let nn = trunc n
                   in (case w_init_maybe nn s of
                         Inl e \<Rightarrow> Some (Inl e)
                       | Inr s1 \<Rightarrow>
                           let f = m_exp L (js_mul (js_neg n) M_LN2)
                           in if js_le x (js_div (js_mul n (js_add n (Fin 1))) (Fin 4))
                              then (case psignrank_loop js_le (Fin 0) x nn f (Fin 0) s1 of
                                      None \<Rightarrow> None
                                    | Some (Inl e) \<Rightarrow> Some (Inl e)
                                    | Some (Inr (p, s2)) \<Rightarrow>
                                        Some (Inr (R_DT_val L lower_tail log_p p, s2)))
                              else let x = js_sub (js_div (js_mul n (js_add n (Fin 1))) (Fin 2)) x
                                   in (case psignrank_loop js_lt (Fin 0) x nn f (Fin 0) s1 of
                                         None \<Rightarrow> None
                                       | Some (Inl e) \<Rightarrow> Some (Inl e)
                                       | Some (Inr (p, s2)) \<Rightarrow>
                                           Some (Inr (R_DT_val L (\<not> lower_tail) log_p p, s2)))))"

text \<open>
  The two scans of \<open>qsignrank\<close>: \<open>while (true)\<close> loops left only through \<open>break\<close>.
  The first is lines 218-223, the second lines 227-234 (\<open>n\<close> is the rounded sample size,
  \<open>nn\<close> its truncation).
\<close>

partial_function (option) qsignrank_scan_low ::
  "jsnum \<Rightarrow> jsnum \<Rightarrow> jsnum \<Rightarrow> jsnum \<Rightarrow> jsnum \<Rightarrow> signrank_state
     \<Rightarrow> (error + jsnum \<times> signrank_state) option" where
  "qsignrank_scan_low x nn f p q s =
     (case csignrank q nn s of
        None \<Rightarrow> None
      | Some (Inl e) \<Rightarrow> Some (Inl e)
      | Some (Inr (v, s')) \<Rightarrow>
          (if js_ge (js_add p (js_mul (ToNumber v) f)) x then Some (Inr (q, s'))
           else qsignrank_scan_low x nn f (js_add p (js_mul (ToNumber v) f)) (js_add q (Fin 1)) s'))"

declare qsignrank_scan_low.simps [code]

partial_function (option) qsignrank_scan_high ::
  "jsnum \<Rightarrow> jsnum \<Rightarrow> jsnum \<Rightarrow> jsnum \<Rightarrow> jsnum \<Rightarrow> jsnum \<Rightarrow> signrank_state
     \<Rightarrow> (error + jsnum \<times> signrank_state) option" where
  "qsignrank_scan_high x n nn f p q s =
     (case csignrank q nn s of
        None \<Rightarrow> None
      | Some (Inl e) \<Rightarrow> Some (Inl e)
      | Some (Inr (v, s')) \<Rightarrow>
          (if js_gt (js_add p (js_mul (ToNumber v) f)) x
           then Some (Inr (trunc (js_sub (js_div (js_mul n (js_add n (Fin 1))) (Fin 2)) q), s'))
           else qsignrank_scan_high x n nn f (js_add p (js_mul (ToNumber v) f)) (js_add q (Fin 1)) s'))"

declare qsignrank_scan_high.simps [code]

text \<open>
  \<open>qsignrank\<close>, lines 182-238. Lines 200-201, \<open>if (n <= 0) ML_ERR_return_NAN;\<close>, have
  no effect (see \<open>psignrank\<close>). The result is \<open>None\<close> when a scan never reaches its
  \<open>break\<close>.
\<close>

definition qsignrank :: "libm \<Rightarrow> jsnum \<Rightarrow> jsnum \<Rightarrow> bool \<Rightarrow> bool \<Rightarrow> signrank_state \<Rightarrow> (error + jsnum \<times> signrank_state) option" where
  "qsignrank L x n lower_tail log_p s =
     (if ISNAN x \<or> ISNAN n then Some (Inr (js_add x n, s))
      else if \<not> R_FINITE x \<or> \<not> R_FINITE n then Some (Inr (NaN, report (MLError ME_DOMAIN) s))
      else (case R_Q_P01_check log_p x of
              Some rc \<Rightarrow> Some (Inr (rc, report (MLError ME_DOMAIN) s))
            | None \<Rightarrow>
                let n = R_forceint n
                in if js_eq x (R_DT_0 lower_tail log_p) then Some (Inr (Fin 0, s))
                   else if js_eq x (R_DT_1 lower_tail log_p)
                        then Some (Inr (js_div (js_mul n (js_add n (Fin 1))) (Fin 2), s))
                   else let x = (if log_p \<or> \<not> lower_tail then R_DT_qIv L lower_tail log_p x else x);
                            nn = trunc n
                        in (case w_init_maybe nn s of
                              Inl e \<Rightarrow> Some (Inl e)
                            | Inr s1 \<Rightarrow>
                                let f = m_exp L (js_mul (js_neg n) M_LN2)
                                in if js_le x (Fin 0.5)
                                   then qsignrank_scan_low
                                          (js_sub x (js_mul (Fin 10) DBL_EPSILON)) nn f (Fin 0) (Fin 0) s1
                                   else qsignrank_scan_high
                                          (js_add (js_sub (Fin 1) x) (js_mul (Fin 10) DBL_EPSILON))
                                          n nn f (Fin 0) (Fin 0) s1)))"

section \<open>The binomial distribution function (pbinom.ts)\<close>

text \<open>
  \<open>pbinom\<close>, lines 45-65, with the diagnostics it reports. Lines 55 and 59 are again
  the expression statement \<open>ML_ERR_return_NAN;\<close>: after the warning of line 54 and
  after the range test of line 59 nothing is returned and the function goes on.
\<close>

definition pbinom :: "libm \<Rightarrow> jsnum \<Rightarrow> jsnum \<Rightarrow> jsnum \<Rightarrow> bool \<Rightarrow> bool \<Rightarrow> jsnum \<times> diag list" where
  "pbinom L x n p lower_tail log_p =
     (if ISNAN x \<or> ISNAN n \<or> ISNAN p then (js_add (js_add x n) p, [])
      else if \<not> R_FINITE n \<or> \<not> R_FINITE p then (NaN, [MLError ME_DOMAIN])
      else let ds = (if R_nonint n then [Warning ''non-integer n = %f''] else []);
               n = R_forceint n
           in if js_lt x (Fin 0) then (R_DT_0 lower_tail log_p, ds)
              else let x = js_floor (js_add x (Fin (1 / 10 ^ 7)))
                   in if js_le n x then (R_DT_1 lower_tail log_p, ds)
                      else (pbeta L p (js_add x (Fin 1)) (js_sub n x) (\<not> lower_tail) log_p, ds))"

section \<open>The noncentral t distribution function (pnt)\<close>

text \<open>
  Constants: \<open>itrmax\<close>, \<open>errmax\<close> and \<open>DBL_MIN_EXP\<close> are the source's;
  \<open>M_SQRT_2dPI\<close> and \<open>M_LN_SQRT_PI\<close> are imported from \<open>_general\<close> and carry
  Mathlib's values of \<open>sqrt(2/pi)\<close> and \<open>ln(sqrt(pi))\<close>.
\<close>

definition itrmax :: nat where
  "itrmax = 1000"

definition errmax :: jsnum where
  "errmax = Fin (1 / 10 ^ 12)"

definition DBL_MIN_EXP :: jsnum where
  "DBL_MIN_EXP = Fin (- 1021)"

definition M_SQRT_2dPI :: jsnum where
  "M_SQRT_2dPI = Fin 0.797884560802865355879892119869"

definition M_LN_SQRT_PI :: jsnum where
  "M_LN_SQRT_PI = Fin 0.572364942924700087071713675677"

text \<open>
  The variables of the twin series, the flag \<open>gotoFinis\<close> and the lines the loop
  prints. A debug line is recorded by its format string.
\<close>

record pnt_series =
  ser_a :: jsnum
  ser_xodd :: jsnum
  ser_xeven :: jsnum
  ser_godd :: jsnum
  ser_geven :: jsnum
  ser_p :: jsnum
  ser_q :: jsnum
  ser_tnc :: jsnum
  ser_s :: jsnum
  ser_gotoFinis :: bool
  ser_log :: "diag list"

text \<open>The assignments at the head of the loop body, lines 497-505.\<close>

definition pnt_update :: "nat \<Rightarrow> jsnum \<Rightarrow> jsnum \<Rightarrow> jsnum \<Rightarrow> pnt_series \<Rightarrow> pnt_series" where
  "pnt_update it x b lambda st =
     (let a = js_add (ser_a st) (Fin 1);
          xodd = js_sub (ser_xodd st) (ser_godd st);
          xeven = js_sub (ser_xeven st) (ser_geven st);
          godd = js_mul (ser_godd st) (js_div (js_mul x (js_sub (js_add a b) (Fin 1))) a);
          geven = js_mul (ser_geven st)
                    (js_div (js_mul x (js_sub (js_add a b) (Fin 0.5))) (js_add a (Fin 0.5)));
          p = js_mul (ser_p st) (js_div lambda (Fin (2 * real it)));
          q = js_mul (ser_q st) (js_div lambda (Fin (2 * real it + 1)));
          tnc = js_add (ser_tnc st) (js_add (js_mul p xodd) (js_mul q xeven));
          s = js_sub (ser_s st) p
      in st\<lparr>ser_a := a, ser_xodd := xodd, ser_xeven := xeven, ser_godd := godd,
             ser_geven := geven, ser_p := p, ser_q := q, ser_tnc := tnc, ser_s := s\<rparr>)"

text \<open>
  The loop \<open>for (let it = 1; it <= itrmax; it++)\<close>, lines 496-540, with its three
  \<open>break\<close>s.
\<close>

function pnt_loop :: "nat \<Rightarrow> jsnum \<Rightarrow> jsnum \<Rightarrow> jsnum \<Rightarrow> pnt_series \<Rightarrow> pnt_series" where
  "pnt_loop it x b lambda st =
     (if it \<le> itrmax
      then (let st1 = pnt_update it x b lambda st
            in if js_lt (ser_s st1) (Fin (- (1 / 10 ^ 10)))
               then st1\<lparr>ser_gotoFinis := True,
                        ser_log := ser_log st1 @
                          [MLError ME_PRECISION,
                           Debug ''goto:true, s = %d < 0 !!! ---> non-convergence!!'']\<rparr>
               else if js_le (ser_s st1) (Fin 0)
               then st1\<lparr>ser_gotoFinis := True,
                        ser_log := ser_log st1 @ [Debug ''goto:true, s:%d < 0 && it:%d>1'']\<rparr>
               else let errbd = js_mul (js_mul (Fin 2) (ser_s st1))
                                  (js_sub (ser_xodd st1) (ser_godd st1));
                        st2 = st1\<lparr>ser_log := ser_log st1 @ [Debug ''%d %d %d|%d %d %d %d %d'']\<rparr>
                    in if js_lt (fabs errbd) errmax
                       then st2\<lparr>ser_gotoFinis := True,
                                ser_log := ser_log st2 @
                                  [Debug ''goto:true, errbd:%d < errmax:%d'']\<rparr>
                       else pnt_loop (it + 1) x b lambda (st2\<lparr>ser_gotoFinis := False\<rparr>))
      else st)"
  by pat_completeness auto
termination
  by (relation "measure (\<lambda>(it, x, b, lambda, st). itrmax + 1 - it)") auto

text \<open>
  The label \<open>finis\<close>, lines 547-571: the normal contribution is added, the tail is
  flipped for a negative \<open>t\<close>, and the clamped sum goes through \<open>R_DT_val\<close>.
\<close>

definition pnt_finis :: "libm \<Rightarrow> bool \<Rightarrow> bool \<Rightarrow> bool \<Rightarrow> jsnum \<Rightarrow> jsnum \<Rightarrow> diag list \<Rightarrow> jsnum \<times> diag list" where
  "pnt_finis L lower_tail log_p negdel del tnc ds =
     (let tnc = js_add tnc (pnorm L (js_neg del) (Fin 0) (Fin 1) True False);
          lower_tail = (lower_tail \<noteq> negdel);
          ds = ds @ (if js_gt tnc (js_sub (Fin 1) (Fin (1 / 10 ^ 10))) \<and> lower_tail
                     then [MLError ME_PRECISION] else []);
          rc = R_DT_val L lower_tail log_p (fmin2 tnc (Fin 1))
      in (rc, ds @ [Debug ''rc:%d, tnc:%d, log_p:%s, lower_tail:%s'']))"

text \<open>
  The series regime, lines 451-545, entered when \<open>x > 0\<close>: \<open>Inl\<close> is the early
  return on underflow, \<open>Inr\<close> the sum \<open>tnc\<close> that goes on to \<open>finis\<close>.
\<close>

definition pnt_twin_series :: "libm \<Rightarrow> bool \<Rightarrow> bool \<Rightarrow> jsnum \<Rightarrow> jsnum \<Rightarrow> jsnum \<Rightarrow> jsnum \<Rightarrow> (jsnum \<times> diag list) + (jsnum \<times> diag list)" where
  "pnt_twin_series L lower_tail log_p df del x rxb =
     (let lambda = js_mul del del;
          p = js_mul (Fin 0.5) (m_exp L (js_mul (js_neg (Fin 0.5)) lambda));
          ds = [Debug ''x > 0 branch'', Debug ''p=%d'']
      in if js_eq p (Fin 0)
         then Inl (R_DT_0 lower_tail log_p,
                   ds @ [Debug ''p=%d, underflow protection'', MLError ME_UNDERFLOW, MLError ME_RANGE])
         else let q = js_mul (js_mul M_SQRT_2dPI p) del;
                  s = js_sub (Fin 0.5) p;
                  s = (if js_lt s (Fin (1 / 10 ^ 7))
                       then js_mul (js_neg (Fin 0.5)) (m_expm1 L (js_mul (js_neg (Fin 0.5)) lambda))
                       else s);
                  a = Fin 0.5;
                  b = js_mul (Fin 0.5) df;
                  rxb = m_pow L rxb b;
                  albeta = js_sub (js_add M_LN_SQRT_PI (lgammafn L b)) (lgammafn L (js_add (Fin 0.5) b));
                  xodd = pbeta L x a b True False;
                  godd = js_mul (js_mul (Fin 2) rxb) (m_exp L (js_sub (js_mul a (m_log L x)) albeta));
                  tnc = js_mul b x;
                  xeven = (if js_lt tnc DBL_EPSILON then tnc else js_sub (Fin 1) rxb);
                  geven = js_mul tnc rxb;
                  tnc = js_add (js_mul p xodd) (js_mul q xeven);
                  st = pnt_loop 1 x b lambda
                         \<lparr>ser_a = a, ser_xodd = xodd, ser_xeven = xeven, ser_godd = godd,
                          ser_geven = geven, ser_p = p, ser_q = q, ser_tnc = tnc, ser_s = s,
                          ser_gotoFinis = False,
                          ser_log = ds @ [Debug ''it  1e5*(godd,   geven)|          p           q           s        pnt(*)     errbd'',
                                          Debug ''return from pbeta:%d'']\<rparr>
              in Inr (ser_tnc st,
                      ser_log st @ (if \<not> ser_gotoFinis st then [MLError ME_NOCONV] else [])))"

text \<open>
  The scalar routine \<open>_pnt\<close>, lines 347-572 (an Isabelle name cannot start with an
  underscore). The result is the value returned and the lines printed.
\<close>

definition pnt_scalar :: "libm \<Rightarrow> jsnum \<Rightarrow> jsnum \<Rightarrow> jsnum \<Rightarrow> bool \<Rightarrow> bool \<Rightarrow> jsnum \<times> diag list" where
  "pnt_scalar L t df ncp lower_tail log_p =
     (if js_le df (Fin 0) then (NaN, [MLError ME_DOMAIN])
      else if js_eq ncp (Fin 0) then (pt L t df lower_tail log_p, [])
      else if \<not> R_FINITE t
           then (if js_lt t (Fin 0) then R_DT_0 lower_tail log_p else R_DT_1 lower_tail log_p, [])
      else let negdel = js_lt t (Fin 0);
               tt = fabs t;
               del = (if js_ge t (Fin 0) then ncp else js_neg ncp)
           in if js_lt t (Fin 0) \<and> js_gt ncp (Fin 40) \<and> (\<not> log_p \<or> \<not> lower_tail)
              then (R_DT_0 lower_tail log_p, [Debug ''if x <=0 and solution for edge ncp > 40''])
              else if js_gt df (Fin 400000)
                      \<or> js_gt (js_mul del del) (js_mul (js_mul (Fin 2) M_LN2) (js_neg DBL_MIN_EXP))
              then let s = js_div (Fin 1) (js_mul (Fin 4) df)
                   in (pnorm L (js_mul tt (js_sub (Fin 1) s)) del
                         (m_sqrt L (js_add (Fin 1) (js_mul (js_mul (js_mul tt tt) (Fin 2)) s)))
                         (lower_tail \<noteq> negdel) log_p,
                       [Debug ''Abramowitz & Stegun 26.7.10 ncp:%d, del:%d, ncp2:%d, del2:%d, D:%d''])
              else let x = js_mul t t;
                       rxb = js_div df (js_add x df);
                       x = js_div x (js_add x df);
                       ds = [Debug ''pnt(t=%d, df=%d, ncp=%d, rxb=%d) ==> x= %d'']
                   in if js_gt x (Fin 0)
                      then (case pnt_twin_series L lower_tail log_p df del x rxb of
                              Inl (rc, ds') \<Rightarrow> (rc, ds @ ds')
                            | Inr (tnc, ds') \<Rightarrow>
                                pnt_finis L lower_tail log_p negdel del tnc (ds @ ds'))
                      else pnt_finis L lower_tail log_p negdel del (Fin 0) ds)"

text \<open>
  Modelled from the spec: \<open>map\<close> of \<open>r-func\<close> (not in the sources) applies the scalar
  routine to a scalar, or to every element of a sequence in order.
\<close>

datatype 'a scalar_or_seq = Scalar 'a | Seq "'a list"

fun map_r :: "('a \<Rightarrow> 'b) \<Rightarrow> 'a scalar_or_seq \<Rightarrow> 'b scalar_or_seq" where
  "map_r f (Scalar t) = Scalar (f t)"
| "map_r f (Seq ts) = Seq (map f ts)"

definition pnt :: "libm \<Rightarrow> jsnum scalar_or_seq \<Rightarrow> jsnum \<Rightarrow> jsnum \<Rightarrow> bool \<Rightarrow> bool \<Rightarrow> (jsnum \<times> diag list) scalar_or_seq" where
  "pnt L tt df ncp lowerTail logP = map_r (\<lambda>t. pnt_scalar L t df ncp lowerTail logP) tt"

section \<open>Concrete inputs\<close>

text \<open>
  The module state before any call, and a stand-in for the mathematical library that
  instantiates the theorems at concrete inputs: \<open>Math.exp\<close> of any argument is
  \<open>1/16\<close> (the value of \<open>exp(-4 ln 2)\<close>), the distribution functions return
  \<open>1/2\<close>, the other functions 0.
\<close>

definition initial_state :: signrank_state where
  "initial_state = \<lparr>w = None, allocated_n = None, reported = []\<rparr>"

definition stand_in :: libm where
  "stand_in =
     \<lparr>m_exp = (\<lambda>x. Fin (1 / 16)), m_log = (\<lambda>x. Fin 0), m_log1p = (\<lambda>x. Fin 0),
      m_expm1 = (\<lambda>x. Fin 0), m_pow = (\<lambda>x y. Fin 0), m_sqrt = (\<lambda>x. Fin 0),
      pbeta = (\<lambda>x a b lower_tail log_p. Fin (1 / 2)), lgammafn = (\<lambda>x. Fin 0),
      pnorm = (\<lambda>x mu sigma lower_tail log_p. Fin (1 / 2)),
      pt = (\<lambda>t df lower_tail log_p. Fin (1 / 2))\<rparr>"

text \<open>
  The table that \<open>w_init_maybe(4)\<close> allocates (six holes), and the table after the
  first \<open>csignrank(k, 4)\<close> has run the build on it.
\<close>

definition table4_fresh :: jsarray where
  "table4_fresh = \<lparr>elems = [None, None, None, None, None, None], props = []\<rparr>"

definition table4_built :: jsarray where
  "table4_built =
     \<lparr>elems = [Some (Fin 1), Some (Fin 1), Some NaN, Some NaN, Some NaN, Some NaN], props = []\<rparr>"

section \<open>Properties\<close>

subsection \<open>NaN in arithmetic and comparisons\<close>

lemma js_add_NaN_right [simp]: "js_add x NaN = NaN"
  by (cases x) simp_all

lemma js_mul_NaN_right [simp]: "js_mul x NaN = NaN"
  by (cases x) simp_all

lemma js_le_NaN_right [simp]: "js_le x NaN = False"
  by (cases x) simp_all

lemma js_lt_NaN_right [simp]: "js_lt x NaN = False"
  by (cases x) simp_all

lemma js_add_zero_left: "js_add (Fin 0) y = y"
  by (cases y) simp_all

subsection \<open>The coefficient table for \<open>n = 4\<close>\<close>

lemmas table_eval =
  csignrank_def csignrank_outer.simps csignrank_inner.simps imin2_def js_ge_def js_gt_def
  js_eq_def js_sub_def arr_set_def arr_get_def array_index_def table4_fresh_def table4_built_def
  Let_def

lemma w_init_maybe_4:
  "w_init_maybe (Fin 4) \<lparr>w = w0, allocated_n = a0, reported = ds\<rparr>
     = Inr \<lparr>w = Some table4_fresh, allocated_n = Some (Fin 4), reported = ds\<rparr>"
  by (simp add: w_init_maybe_def new_Array_def table4_fresh_def eval_nat_numeral)

text \<open>
  The first lookup after the allocation runs the build: every slot from 2 on is the sum
  of a hole, which reads as \<open>undefined\<close>, and a number, that is NaN.
\<close>

lemma csignrank_fresh4:
  "csignrank (Fin 0) (Fin 4) \<lparr>w = Some table4_fresh, allocated_n = a0, reported = ds\<rparr>
     = Some (Inr (Number (Fin 1), \<lparr>w = Some table4_built, allocated_n = a0, reported = ds\<rparr>))"
  "csignrank (Fin 10) (Fin 4) \<lparr>w = Some table4_fresh, allocated_n = a0, reported = ds\<rparr>
     = Some (Inr (Number (Fin 1), \<lparr>w = Some table4_built, allocated_n = a0, reported = ds\<rparr>))"
  "csignrank (Fin 5) (Fin 4) \<lparr>w = Some table4_fresh, allocated_n = a0, reported = ds\<rparr>
     = Some (Inr (Number NaN, \<lparr>w = Some table4_built, allocated_n = a0, reported = ds\<rparr>))"
  by (simp_all add: table_eval)

lemma csignrank_built4:
  "csignrank (Fin 0) (Fin 4) \<lparr>w = Some table4_built, allocated_n = a0, reported = ds\<rparr>
     = Some (Inr (Number (Fin 1), \<lparr>w = Some table4_built, allocated_n = a0, reported = ds\<rparr>))"
  "csignrank (Fin 1) (Fin 4) \<lparr>w = Some table4_built, allocated_n = a0, reported = ds\<rparr>
     = Some (Inr (Number (Fin 1), \<lparr>w = Some table4_built, allocated_n = a0, reported = ds\<rparr>))"
  "csignrank (Fin 2) (Fin 4) \<lparr>w = Some table4_built, allocated_n = a0, reported = ds\<rparr>
     = Some (Inr (Number NaN, \<lparr>w = Some table4_built, allocated_n = a0, reported = ds\<rparr>))"
  "csignrank (Fin 5) (Fin 4) \<lparr>w = Some table4_built, allocated_n = a0, reported = ds\<rparr>
     = Some (Inr (Number NaN, \<lparr>w = Some table4_built, allocated_n = a0, reported = ds\<rparr>))"
  "csignrank (Fin 10) (Fin 4) \<lparr>w = Some table4_built, allocated_n = a0, reported = ds\<rparr>
     = Some (Inr (Number (Fin 1), \<lparr>w = Some table4_built, allocated_n = a0, reported = ds\<rparr>))"
  by (simp_all add: table_eval)

text \<open>
  C1 (the code at its failing input). After \<open>w_init_maybe(4)\<close>, from any state,
  \<open>csignrank(0, 4)\<close> and \<open>csignrank(10, 4)\<close> return 1, but \<open>csignrank(5, 4)\<close>
  returns NaN, not 2, whether it is the first lookup on the fresh table or a later one on
  the built table: \<open>new Array\<close> leaves holes where Mathlib's \<open>calloc\<close> left zeros.
\<close>

theorem csignrank_5_4_is_NaN:
  "w_init_maybe (Fin 4) \<lparr>w = w0, allocated_n = a0, reported = ds\<rparr>
     = Inr \<lparr>w = Some table4_fresh, allocated_n = Some (Fin 4), reported = ds\<rparr>
   \<and> csignrank (Fin 0) (Fin 4) \<lparr>w = Some table4_fresh, allocated_n = Some (Fin 4), reported = ds\<rparr>
       = Some (Inr (Number (Fin 1), \<lparr>w = Some table4_built, allocated_n = Some (Fin 4), reported = ds\<rparr>))
   \<and> csignrank (Fin 10) (Fin 4) \<lparr>w = Some table4_fresh, allocated_n = Some (Fin 4), reported = ds\<rparr>
       = Some (Inr (Number (Fin 1), \<lparr>w = Some table4_built, allocated_n = Some (Fin 4), reported = ds\<rparr>))
   \<and> csignrank (Fin 5) (Fin 4) \<lparr>w = Some table4_fresh, allocated_n = Some (Fin 4), reported = ds\<rparr>
       = Some (Inr (Number NaN, \<lparr>w = Some table4_built, allocated_n = Some (Fin 4), reported = ds\<rparr>))
   \<and> csignrank (Fin 5) (Fin 4) \<lparr>w = Some table4_built, allocated_n = Some (Fin 4), reported = ds\<rparr>
       = Some (Inr (Number NaN, \<lparr>w = Some table4_built, allocated_n = Some (Fin 4), reported = ds\<rparr>))"
  by (simp only: w_init_maybe_4 csignrank_fresh4 csignrank_built4 simp_thms)

text \<open>
  C2 (the code at its failing input). \<open>w_init_maybe(1)\<close> and \<open>w_init_maybe(2)\<close>
  compute the unfloored \<open>c = u / 2\<close> (0.5 and 1.5), so \<open>new Array(c + 1)\<close> throws a
  RangeError and no table is left; \<open>w_init_maybe(3)\<close>, where \<open>u = 6\<close> is even,
  returns.
\<close>

theorem w_init_maybe_odd_u_throws:
  "w_init_maybe (Fin 1) s = Inl RangeError
   \<and> w_init_maybe (Fin 2) s = Inl RangeError
   \<and> w_init_maybe (Fin 3) s
       = Inr (s\<lparr>w := Some \<lparr>elems = [None, None, None, None], props = []\<rparr>,
                allocated_n := Some (Fin 3)\<rparr>)"
  by (simp add: w_init_maybe_def new_Array_def eval_nat_numeral)

text \<open>The cached sample size is written and never read: the result does not depend on it.\<close>

lemma w_init_maybe_ignores_allocated_n:
  "w_init_maybe n (s\<lparr>allocated_n := a\<rparr>) = w_init_maybe n (s\<lparr>allocated_n := b\<rparr>)"
  by (simp add: w_init_maybe_def Let_def split: sum.splits)

text \<open>
  C3 (the code at its failing input). With the table built for \<open>n = 4\<close> and
  \<open>allocated_n = 4\<close>, the call \<open>w_init_maybe(4)\<close> replaces the table by six new
  holes: the table is reallocated although the requested \<open>n\<close> is the cached one.
\<close>

theorem w_init_maybe_reallocates_same_n:
  "w_init_maybe (Fin 4) \<lparr>w = Some table4_built, allocated_n = Some (Fin 4), reported = ds\<rparr>
     = Inr \<lparr>w = Some table4_fresh, allocated_n = Some (Fin 4), reported = ds\<rparr>
   \<and> table4_fresh \<noteq> table4_built"
  by (simp add: w_init_maybe_4 table4_fresh_def table4_built_def)

subsection \<open>The distribution function and the quantile scan\<close>

lemmas psignrank_eval =
  psignrank_def psignrank_loop.simps Let_def ISNAN_def round_def R_DT_0_def R_DT_1_def
  R_D__0_def R_D__1_def R_DT_val_def R_D_val_def js_ge_def js_gt_def

text \<open>
  The two boundary values hold for every sample size: both calls return before the table
  is touched.
\<close>

lemma psignrank_below_support:
  assumes "n \<noteq> NaN"
  shows "psignrank L (Fin (- 1)) n True False s = Some (Inr (Fin 0, s))"
  using assms
  by (simp add: psignrank_def ISNAN_def Let_def round_def R_DT_0_def R_D__0_def)

lemma triangular_is_integer: "real k * (real k + 1) / 2 = real (k * (k + 1) div 2)"
proof -
  have "2 dvd k * (k + 1)" by simp
  from real_of_nat_div [OF this] show ?thesis by (simp add: algebra_simps)
qed

lemma round_near_integer: "round (real m + 1 / 10 ^ 7) = int m"
  by (rule round_unique) simp_all

lemma R_forceint_near_integer:
  "R_forceint (js_add (Fin (real m)) (Fin (1 / 10 ^ 7))) = Fin (real m)"
  using round_near_integer [of m] by simp

lemma psignrank_at_maximum:
  "psignrank L (Fin (real k * (real k + 1) / 2)) (Fin (real k)) True False s
     = Some (Inr (Fin 1, s))"
proof -
  let ?u = "Fin (real (k * (k + 1) div 2))"
  have n: "R_forceint (Fin (real k)) = Fin (real k)"
    by simp
  have lt: "\<not> js_lt ?u (Fin 0)"
    by simp
  have "js_div (js_mul (Fin (real k)) (js_add (Fin (real k)) (Fin 1))) (Fin 2)
          = Fin (real k * (real k + 1) / 2)"
    by simp
  then have "js_div (js_mul (Fin (real k)) (js_add (Fin (real k)) (Fin 1))) (Fin 2) = ?u"
    by (simp only: triangular_is_integer)
  then have ge: "js_ge ?u (js_div (js_mul (Fin (real k)) (js_add (Fin (real k)) (Fin 1))) (Fin 2))"
    by (simp add: js_ge_def)
  show ?thesis
    unfolding psignrank_def Let_def n triangular_is_integer R_forceint_near_integer
    using lt ge
    by (simp only: ISNAN_def jsnum.distinct simp_thms if_False if_True R_DT_1_def R_D__1_def)
qed

text \<open>
  C5 (the code at its failing input). \<open>psignrank(2, 4, true, false)\<close> is NaN: the sum
  reaches the NaN slot 2 of the table. No value \<open>p1\<close>, so not the value of
  \<open>psignrank(1, 4, true, false)\<close> either, is below or equal to NaN, so the function is
  not non-decreasing from \<open>x = 1\<close> to \<open>x = 2\<close>. \<open>psignrank(0, 1, true, false)\<close> does
  not return at all: \<open>w_init_maybe(1)\<close> throws.
\<close>

theorem psignrank_2_4_is_NaN:
  "psignrank L (Fin 2) (Fin 4) True False \<lparr>w = w0, allocated_n = a0, reported = ds\<rparr>
     = Some (Inr (NaN, \<lparr>w = Some table4_built, allocated_n = Some (Fin 4), reported = ds\<rparr>))
   \<and> \<not> js_le p1 NaN
   \<and> psignrank L (Fin 0) (Fin 1) True False s = Some (Inl RangeError)"
proof (intro conjI)
  show "psignrank L (Fin 2) (Fin 4) True False \<lparr>w = w0, allocated_n = a0, reported = ds\<rparr>
     = Some (Inr (NaN, \<lparr>w = Some table4_built, allocated_n = Some (Fin 4), reported = ds\<rparr>))"
    by (simp add: psignrank_eval w_init_maybe_4 csignrank_fresh4 csignrank_built4)
  show "\<not> js_le p1 NaN"
    by simp
  show "psignrank L (Fin 0) (Fin 1) True False s = Some (Inl RangeError)"
    by (simp add: psignrank_eval w_init_maybe_def new_Array_def)
qed

text \<open>
  C8 (the code at its failing input). \<open>psignrank(0, 0, true, false)\<close> and
  \<open>psignrank(5, -3, true, false)\<close> return the probability 1, and
  \<open>psignrank(0, Infinity, true, false)\<close> throws a RangeError from the allocation: the
  two tests of \<open>n\<close> return nothing.
\<close>

theorem psignrank_accepts_bad_n:
  "psignrank L (Fin 0) (Fin 0) True False s = Some (Inr (Fin 1, s))
   \<and> psignrank L (Fin 5) (Fin (- 3)) True False s = Some (Inr (Fin 1, s))
   \<and> psignrank L (Fin 0) PInf True False s = Some (Inl RangeError)"
  by (simp add: psignrank_eval w_init_maybe_def new_Array_def)

text \<open>Once slot 0 of the table is 1, a lookup returns without touching the state.\<close>

lemma csignrank_built:
  assumes "w s = Some a" and "strict_eq (arr_get a (Fin 0)) (Fin 1)"
  shows "\<exists>v. csignrank q n s = Some (Inr (v, s))"
  using assms by (simp add: csignrank_def Let_def)

text \<open>The induction rule of the first scan, with its arguments curried.\<close>

lemma scan_low_raw:
  assumes "qsignrank_scan_low x nn f p q s = Some y"
    and "\<And>scan x nn f p q s y.
      (\<And>x nn f p q s y. scan x nn f p q s = Some y \<Longrightarrow> P x nn f p q s y) \<Longrightarrow>
      (case csignrank q nn s of
         None \<Rightarrow> None
       | Some (Inl e) \<Rightarrow> Some (Inl e)
       | Some (Inr (v, s')) \<Rightarrow>
           if js_ge (js_add p (js_mul (ToNumber v) f)) x then Some (Inr (q, s'))
           else scan x nn f (js_add p (js_mul (ToNumber v) f)) (js_add q (Fin 1)) s') = Some y
      \<Longrightarrow> P x nn f p q s y"
  shows "P x nn f p q s y"
  apply (rule qsignrank_scan_low.raw_induct
      [where P = P and xa = "(((((x, nn), f), p), q), s)" and y = y, unfolded prod.case])
   apply (rule assms(2))
    apply assumption
   apply assumption
  apply (rule assms(1))
  done

text \<open>
  With a NaN sum the test \<open>p >= x\<close> is false at every step, so the scan never reaches
  its \<open>break\<close>.
\<close>

lemma scan_low_NaN:
  assumes "w s = Some a" and "strict_eq (arr_get a (Fin 0)) (Fin 1)"
  shows "qsignrank_scan_low x nn f NaN q s = None"
proof -
  have never: "\<not> (p' = NaN \<and> s' = s)"
    if "qsignrank_scan_low x' nn' f' p' q' s' = Some y" for x' nn' f' p' q' s' y
  proof (rule scan_low_raw[OF that])
    fix scan :: "jsnum \<Rightarrow> jsnum \<Rightarrow> jsnum \<Rightarrow> jsnum \<Rightarrow> jsnum \<Rightarrow> signrank_state
                   \<Rightarrow> (error + jsnum \<times> signrank_state) option"
    fix x nn f p q s' y
    assume ih: "\<And>x nn f p q s' y. scan x nn f p q s' = Some y \<Longrightarrow> \<not> (p = NaN \<and> s' = s)"
    assume eq: "(case csignrank q nn s' of
                   None \<Rightarrow> None
                 | Some (Inl e) \<Rightarrow> Some (Inl e)
                 | Some (Inr (v, s'')) \<Rightarrow>
                     if js_ge (js_add p (js_mul (ToNumber v) f)) x then Some (Inr (q, s''))
                     else scan x nn f (js_add p (js_mul (ToNumber v) f)) (js_add q (Fin 1)) s'')
                = Some y"
    show "\<not> (p = NaN \<and> s' = s)"
    proof
      assume h: "p = NaN \<and> s' = s"
      obtain v where v: "csignrank q nn s = Some (Inr (v, s))"
        using csignrank_built[OF assms] by blast
      from eq h v have "scan x nn f NaN (js_add q (Fin 1)) s = Some y"
        by (simp add: js_ge_def)
      from ih[OF this] show False by simp
    qed
  qed
  show ?thesis
  proof (cases "qsignrank_scan_low x nn f NaN q s")
    case None
    then show ?thesis .
  next
    case (Some y)
    from never[OF this] show ?thesis by simp
  qed
qed

lemma scan_low_step:
  assumes "csignrank q nn s = Some (Inr (v, s'))"
    and "\<not> js_ge (js_add p (js_mul (ToNumber v) f)) x"
  shows "qsignrank_scan_low x nn f p q s
           = qsignrank_scan_low x nn f (js_add p (js_mul (ToNumber v) f)) (js_add q (Fin 1)) s'"
  using assms by (subst qsignrank_scan_low.simps) simp

text \<open>
  C4 (the code at its failing input). \<open>qsignrank(0.5, 4, true, false)\<close> never returns,
  whenever \<open>Math.exp(-4 * M_LN2)\<close> is a number below \<open>1/5\<close> (it is about \<open>1/16\<close>): the
  sum is \<open>f\<close> and \<open>2f\<close> after the first two steps, both below the target, and NaN from
  the third step on.
\<close>

theorem qsignrank_scan_never_breaks:
  assumes "m_exp L (js_mul (js_neg (Fin 4)) M_LN2) = Fin e" and "e < 1 / 5"
  shows "qsignrank L (Fin (1 / 2)) (Fin 4) True False \<lparr>w = w0, allocated_n = a0, reported = ds\<rparr>
           = None"
proof -
  let ?x = "js_sub (Fin (1 / 2)) (js_mul (Fin 10) DBL_EPSILON)"
  let ?sf = "\<lparr>w = Some table4_fresh, allocated_n = Some (Fin 4), reported = ds\<rparr>"
  let ?sb = "\<lparr>w = Some table4_built, allocated_n = Some (Fin 4), reported = ds\<rparr>"
  have x: "?x = Fin (1 / 2 - 10 / 2 ^ 52)"
    by (simp add: js_sub_def DBL_EPSILON_def)
  have "qsignrank L (Fin (1 / 2)) (Fin 4) True False \<lparr>w = w0, allocated_n = a0, reported = ds\<rparr>
          = qsignrank_scan_low ?x (Fin 4) (Fin e) (Fin 0) (Fin 0) ?sf"
    using assms(1)
    by (simp add: qsignrank_def ISNAN_def R_Q_P01_check_def js_gt_def js_eq_def R_DT_0_def
        R_DT_1_def R_D__0_def R_D__1_def Let_def w_init_maybe_4)
  also have "\<dots> = qsignrank_scan_low ?x (Fin 4) (Fin e) (Fin e) (Fin 1) ?sb"
    using assms(2) by (subst scan_low_step[OF csignrank_fresh4(1)]) (simp_all add: x js_ge_def)
  also have "\<dots> = qsignrank_scan_low ?x (Fin 4) (Fin e) (Fin (e + e)) (Fin 2) ?sb"
    using assms(2) by (subst scan_low_step[OF csignrank_built4(2)]) (simp_all add: x js_ge_def)
  also have "\<dots> = qsignrank_scan_low ?x (Fin 4) (Fin e) NaN (Fin 3) ?sb"
    by (subst scan_low_step[OF csignrank_built4(3)]) (simp_all add: x js_ge_def)
  also have "\<dots> = None"
    by (rule scan_low_NaN[where a = table4_built])
       (simp_all add: table4_built_def arr_get_def array_index_def js_eq_def)
  finally show ?thesis .
qed

text \<open>
  Witness of C4's theorem: the stand-in library, whose \<open>Math.exp\<close> is \<open>1/16\<close>, on the
  initial state.
\<close>

theorem qsignrank_scan_never_breaks_witness:
  "m_exp stand_in (js_mul (js_neg (Fin 4)) M_LN2) = Fin (1 / 16) \<and> (1 / 16 :: real) < 1 / 5
   \<and> qsignrank stand_in (Fin (1 / 2)) (Fin 4) True False initial_state = None"
  using qsignrank_scan_never_breaks [of stand_in "1 / 16" None None "[]"]
  by (simp add: stand_in_def initial_state_def)

subsection \<open>The binomial distribution function\<close>

text \<open>
  C9 (the code at its failing input). With \<open>p = 2\<close>, \<open>pbinom\<close> returns the boundary
  value 0 for \<open>x = -1\<close> and delegates to \<open>pbeta\<close> for \<open>x = 1\<close>; with \<open>n = -2\<close> it
  returns the boundary value 1; with \<open>n = 2.3\<close> it warns and returns 1. None is NaN.
\<close>

theorem pbinom_accepts_bad_parameters:
  "pbinom L (Fin (- 1)) (Fin 3) (Fin 2) True False = (Fin 0, [])
   \<and> pbinom L (Fin 1) (Fin 3) (Fin 2) True False
       = (pbeta L (Fin 2) (Fin 2) (Fin 2) False False, [])
   \<and> pbinom L (Fin 0) (Fin (- 2)) (Fin (1 / 2)) True False = (Fin 1, [])
   \<and> pbinom L (Fin 5) (Fin (23 / 10)) (Fin (1 / 2)) True False
       = (Fin 1, [Warning ''non-integer n = %f''])"
  by (simp add: pbinom_def Let_def ISNAN_def round_def R_nonint_def R_DT_0_def R_DT_1_def
      R_D__0_def R_D__1_def js_gt_def js_sub_def)

text \<open>Witness of C9's theorem: the same calls with the stand-in library.\<close>

theorem pbinom_accepts_bad_parameters_witness:
  "pbinom stand_in (Fin (- 1)) (Fin 3) (Fin 2) True False = (Fin 0, [])
   \<and> pbinom stand_in (Fin 1) (Fin 3) (Fin 2) True False = (Fin (1 / 2), [])
   \<and> pbinom stand_in (Fin 0) (Fin (- 2)) (Fin (1 / 2)) True False = (Fin 1, [])"
  using pbinom_accepts_bad_parameters [of stand_in]
  by (simp add: stand_in_def)

subsection \<open>The noncentral t distribution function\<close>

text \<open>
  C6 (the code at its failing input). For \<open>t = NaN\<close>, \<open>df = 1\<close>, \<open>ncp = 1\<close> the
  test \<open>!R_FINITE(t)\<close> holds and \<open>t < 0\<close> does not, so \<open>pnt\<close> returns the
  1-probability boundary value, which is never NaN; for the lower tail in linear space
  it is 1.
\<close>

theorem pnt_NaN_t_returns_boundary:
  "pnt L (Scalar NaN) (Fin 1) (Fin 1) lower_tail log_p = Scalar (R_DT_1 lower_tail log_p, [])
   \<and> R_DT_1 lower_tail log_p \<noteq> NaN
   \<and> R_DT_1 True False = Fin 1"
  by (simp add: pnt_def pnt_scalar_def js_eq_def R_DT_1_def R_D__0_def R_D__1_def)

lemma asymptotic_threshold:
  "js_mul (js_mul (Fin 2) M_LN2) (js_neg DBL_MIN_EXP) = Fin (2 * 0.693147180559945309417 * 1021)"
  by (simp add: M_LN2_def DBL_MIN_EXP_def)

text \<open>
  A noncentrality above 40 is in the asymptotic regime: \<open>del * del > 1600\<close>, and the
  threshold \<open>2 * M_LN2 * 1021\<close> is about 1415.4.
\<close>

lemma ncp_above_40_is_asymptotic:
  assumes "js_gt ncp (Fin 40)"
  shows "js_gt (js_mul (js_neg ncp) (js_neg ncp))
           (js_mul (js_mul (Fin 2) M_LN2) (js_neg DBL_MIN_EXP))"
proof (cases ncp)
  case (Fin r)
  with assms have r: "40 < r" by (simp add: js_gt_def)
  then have "40 * 40 < r * r" by (intro mult_strict_mono) simp_all
  then show ?thesis using Fin by (simp add: asymptotic_threshold js_gt_def)
qed (use assms in \<open>simp_all add: asymptotic_threshold js_gt_def\<close>)

text \<open>
  C7, as amended. For every finite \<open>t < 0\<close>, \<open>df > 0\<close> and \<open>ncp > 40\<close>, \<open>_pnt\<close>
  takes the shortcut, that is, returns the 0-probability boundary value having printed
  only the shortcut's line, exactly when the request is not a lower tail in log space:
  not (\<open>lower_tail\<close> and \<open>log_p\<close>). For a lower tail in log space it runs the asymptotic
  branch.
\<close>

theorem pnt_left_tail_shortcut_iff:
  assumes "tr < 0" and "js_gt df (Fin 0)" and "js_gt ncp (Fin 40)"
  shows "(pnt_scalar L (Fin tr) df ncp lower_tail log_p
            = (R_DT_0 lower_tail log_p, [Debug ''if x <=0 and solution for edge ncp > 40'']))
         = (\<not> (lower_tail \<and> log_p))"
proof -
  have df: "\<not> js_le df (Fin 0)"
    using assms(2) by (cases df) (simp_all add: js_gt_def)
  have ncp: "\<not> js_eq ncp (Fin 0)"
    using assms(3) by (cases ncp) (simp_all add: js_gt_def js_eq_def)
  show ?thesis
  proof (cases "lower_tail \<and> log_p")
    case False
    then show ?thesis
      using assms(1,3) df ncp by (auto simp add: pnt_scalar_def Let_def)
  next
    case True
    then have "snd (pnt_scalar L (Fin tr) df ncp lower_tail log_p)
                 = [Debug ''Abramowitz & Stegun 26.7.10 ncp:%d, del:%d, ncp2:%d, del2:%d, D:%d'']"
      using assms(1) df ncp ncp_above_40_is_asymptotic[OF assms(3)]
      by (simp add: pnt_scalar_def Let_def js_ge_def)
    then show ?thesis using True by auto
  qed
qed

text \<open>
  Witness of C7's theorem: \<open>t = -1\<close>, \<open>df = 1\<close>, \<open>ncp = 41\<close>, upper tail in log
  space: the shortcut is taken.
\<close>

theorem pnt_left_tail_shortcut_iff_witness:
  "(- 1 :: real) < 0 \<and> js_gt (Fin 1) (Fin 0) \<and> js_gt (Fin 41) (Fin 40)
   \<and> pnt_scalar stand_in (Fin (- 1)) (Fin 1) (Fin 41) False True
       = (R_DT_0 False True, [Debug ''if x <=0 and solution for edge ncp > 40''])"
  using pnt_left_tail_shortcut_iff [of "- 1" "Fin 1" "Fin 41" stand_in False True]
  by (simp add: js_gt_def)

text \<open>
  Counterexample to C7 as stated: at \<open>t = -1\<close>, \<open>df = 1\<close>, \<open>ncp = 41\<close> with the
  lower tail in linear space the shortcut is taken, although the claim has it taken
  exactly when the request is not (\<open>lower_tail\<close> and not \<open>log_p\<close>).
\<close>

theorem pnt_left_tail_shortcut_counterexample:
  "\<not> ((pnt_scalar stand_in (Fin (- 1)) (Fin 1) (Fin 41) True False
          = (R_DT_0 True False, [Debug ''if x <=0 and solution for edge ncp > 40'']))
       = (\<not> (True \<and> \<not> False)))"
  by (simp add: pnt_scalar_def Let_def js_gt_def js_eq_def)

text \<open>
  C10. For \<open>t = 0\<close>, \<open>0 < df \<le> 4e5\<close> and a finite nonzero \<open>ncp\<close> for which the
  test \<open>del * del > 2 * M_LN2 * 1021\<close> fails, \<open>_pnt(0, df, ncp, true, false)\<close> returns
  \<open>pnorm(-ncp, 0, 1, true, false)\<close>: the series is skipped since \<open>x = 0\<close>. The
  collaborator \<open>pnorm\<close> returns a probability, so its value is not above 1 and the
  final \<open>fmin2(tnc, 1)\<close> leaves it as it is.
\<close>

theorem pnt_at_zero_is_pnorm:
  assumes "0 < d" and "d \<le> 400000" and "c \<noteq> 0"
    and "\<not> js_gt (js_mul (Fin c) (Fin c)) (js_mul (js_mul (Fin 2) M_LN2) (js_neg DBL_MIN_EXP))"
    and "\<not> js_gt (pnorm L (js_neg (Fin c)) (Fin 0) (Fin 1) True False) (Fin 1)"
  shows "fst (pnt_scalar L (Fin 0) (Fin d) (Fin c) True False)
           = pnorm L (js_neg (Fin c)) (Fin 0) (Fin 1) True False"
proof -
  let ?pn = "pnorm L (Fin (- c)) (Fin 0) (Fin 1) True False"
  have clamp: "fmin2 ?pn (Fin 1) = ?pn"
    using assms(5) by (cases ?pn) (simp_all add: fmin2_def js_gt_def)
  have "pnt_scalar L (Fin 0) (Fin d) (Fin c) True False
          = pnt_finis L True False False (Fin c) (Fin 0)
              [Debug ''pnt(t=%d, df=%d, ncp=%d, rxb=%d) ==> x= %d'']"
    using assms(1-4) by (simp add: pnt_scalar_def Let_def js_eq_def js_ge_def js_gt_def)
  then show ?thesis
    by (simp add: pnt_finis_def Let_def js_add_zero_left clamp R_DT_val_def R_D_val_def)
qed

text \<open>
  Witness of C10's theorem: \<open>df = 1\<close>, \<open>ncp = 1\<close> and the stand-in library, whose
  \<open>pnorm\<close> is \<open>1/2\<close>.
\<close>

theorem pnt_at_zero_is_pnorm_witness:
  "(0 :: real) < 1 \<and> (1 :: real) \<le> 400000 \<and> (1 :: real) \<noteq> 0
   \<and> \<not> js_gt (js_mul (Fin 1) (Fin 1)) (js_mul (js_mul (Fin 2) M_LN2) (js_neg DBL_MIN_EXP))
   \<and> \<not> js_gt (pnorm stand_in (js_neg (Fin 1)) (Fin 0) (Fin 1) True False) (Fin 1)
   \<and> fst (pnt_scalar stand_in (Fin 0) (Fin 1) (Fin 1) True False)
       = pnorm stand_in (js_neg (Fin 1)) (Fin 0) (Fin 1) True False"
  using pnt_at_zero_is_pnorm [of 1 1 stand_in]
  by (simp add: asymptotic_threshold js_gt_def stand_in_def)

end
